theory Spec2Isabelle
  imports Main
begin

section \<open>JavaScript values\<close>

text \<open>
  The library is TypeScript; at run time its functions receive arbitrary JavaScript
  values (\<^verbatim>\<open>unknown\<close>, \<^verbatim>\<open>Record<string, unknown>\<close>). A value is a primitive, a
  function or an object. An object is given by
  \<^item> the classes whose prototype lies on its prototype chain (what \<^verbatim>\<open>instanceof\<close>
    inspects), and
  \<^item> its properties as a property read sees them: own properties first, then the
    inherited ones, so that the first entry for a key is the one a read returns and
    \<^verbatim>\<open>key in obj\<close> holds exactly for the keys listed.
  Properties are data properties: accessors and proxies are outside the model. Numbers
  are the integers of magnitude below \<open>10\<^sup>2\<^sup>1\<close>, which the language prints in full. A user
  function is given by its \<^verbatim>\<open>name\<close>, its source text and the outcome of calling it as a
  method of the object that carries it (\<open>Inl\<close> a thrown value, \<open>Inr\<close> the returned one); it
  has no other property of its own, so that its string conversion is its source text.
  The built-in functions the code meets are constants.
\<close>

datatype class_id =
  ObjectC | ErrorC | TypeErrorC | RangeErrorC | InvalidRequestErrorC | UserC string

text \<open>\<open>ObjectProtoMethod n\<close> is the method \<open>n\<close> of \<^verbatim>\<open>Object.prototype\<close> other than
  \<^verbatim>\<open>toString\<close> and \<^verbatim>\<open>valueOf\<close>: \<^verbatim>\<open>hasOwnProperty\<close>, \<^verbatim>\<open>isPrototypeOf\<close>,
  \<^verbatim>\<open>propertyIsEnumerable\<close>, \<^verbatim>\<open>toLocaleString\<close> and the four legacy accessors'
  helpers.\<close>

datatype builtin =
    ObjectProtoToString
  | ErrorProtoToString
  | ObjectProtoValueOf
  | ObjectProtoMethod string
  | Ctor class_id

datatype jsval =
    Undefined
  | Null
  | Bool bool
  | Num int
  | Str string
  | Builtin builtin
  | Fun string string "jsval + jsval"
  | Obj "class_id list" "(string \<times> jsval) list"

fun get_prop :: "(string \<times> jsval) list \<Rightarrow> string \<Rightarrow> jsval" where
  "get_prop [] k = Undefined"
| "get_prop ((k', v) # fs) k = (if k' = k then v else get_prop fs k)"

fun has_prop :: "(string \<times> jsval) list \<Rightarrow> string \<Rightarrow> bool" where
  "has_prop [] k = False"
| "has_prop ((k', v) # fs) k = (k' = k \<or> has_prop fs k)"

fun set_prop :: "(string \<times> jsval) list \<Rightarrow> string \<Rightarrow> jsval \<Rightarrow> (string \<times> jsval) list" where
  "set_prop [] k v = [(k, v)]"
| "set_prop ((k', v') # fs) k v = (if k' = k then (k, v) # fs else (k', v') # set_prop fs k v)"

text \<open>\<^verbatim>\<open>obj[key]\<close>, \<^verbatim>\<open>key in obj\<close> and \<^verbatim>\<open>obj[key] = v\<close> on a value that the code has
  narrowed to an object: \<open>isError\<close> uses them behind its test \<open>isObject\<close>. (On a function
  value the model reads no property; the code under study reads properties of functions
  only through \<open>name_of\<close> below.) Where the operand is not known to be an object, the
  operator \<^verbatim>\<open>in\<close> is \<open>in_operator\<close> below, which raises on a primitive.\<close>

fun get :: "jsval \<Rightarrow> string \<Rightarrow> jsval" where
  "get (Obj c fs) k = get_prop fs k"
| "get v k = Undefined"

fun prop_in :: "string \<Rightarrow> jsval \<Rightarrow> bool" where
  "prop_in k (Obj c fs) = has_prop fs k"
| "prop_in k v = False"

fun assign :: "jsval \<Rightarrow> string \<Rightarrow> jsval \<Rightarrow> jsval" where
  "assign (Obj c fs) k v = Obj c (set_prop fs k v)"
| "assign w k v = w"

fun instanceof :: "jsval \<Rightarrow> class_id \<Rightarrow> bool" where
  "instanceof (Obj c fs) cls = (cls \<in> set c)"
| "instanceof v cls = False"

fun typeof :: "jsval \<Rightarrow> string" where
  "typeof Undefined = ''undefined''"
| "typeof Null = ''object''"
| "typeof (Bool b) = ''boolean''"
| "typeof (Num n) = ''number''"
| "typeof (Str s) = ''string''"
| "typeof (Builtin b) = ''function''"
| "typeof (Fun n src out) = ''function''"
| "typeof (Obj c fs) = ''object''"

fun truthy :: "jsval \<Rightarrow> bool" where
  "truthy Undefined = False"
| "truthy Null = False"
| "truthy (Bool b) = b"
| "truthy (Num n) = (n \<noteq> 0)"
| "truthy (Str s) = (s \<noteq> [])"
| "truthy v = True"

fun is_primitive :: "jsval \<Rightarrow> bool" where
  "is_primitive (Obj c fs) = False"
| "is_primitive (Fun n src out) = False"
| "is_primitive (Builtin b) = False"
| "is_primitive v = True"

fun is_callable :: "jsval \<Rightarrow> bool" where
  "is_callable (Fun n src out) = True"
| "is_callable (Builtin b) = True"
| "is_callable v = False"

subsection \<open>Class names, error objects, object literals\<close>

fun class_name :: "class_id \<Rightarrow> string" where
  "class_name ObjectC = ''Object''"
| "class_name ErrorC = ''Error''"
| "class_name TypeErrorC = ''TypeError''"
| "class_name RangeErrorC = ''RangeError''"
| "class_name InvalidRequestErrorC = ''InvalidRequestError''"
| "class_name (UserC n) = n"

fun builtin_name :: "builtin \<Rightarrow> string" where
  "builtin_name ObjectProtoToString = ''toString''"
| "builtin_name ErrorProtoToString = ''toString''"
| "builtin_name ObjectProtoValueOf = ''valueOf''"
| "builtin_name (ObjectProtoMethod n) = n"
| "builtin_name (Ctor c) = class_name c"

text \<open>What \<^verbatim>\<open>Object.prototype\<close> provides, in the order the engine lists it. The
  accessor \<^verbatim>\<open>__proto__\<close> reads the prototype of the receiver, so it is listed with each
  object; \<^verbatim>\<open>Object.prototype\<close> itself has the prototype \<^verbatim>\<open>null\<close>.\<close>

definition object_proto_methods :: "(string \<times> jsval) list" where
  "object_proto_methods =
     [(''constructor'', Builtin (Ctor ObjectC)),
      (''__defineGetter__'', Builtin (ObjectProtoMethod ''__defineGetter__'')),
      (''__defineSetter__'', Builtin (ObjectProtoMethod ''__defineSetter__'')),
      (''hasOwnProperty'', Builtin (ObjectProtoMethod ''hasOwnProperty'')),
      (''__lookupGetter__'', Builtin (ObjectProtoMethod ''__lookupGetter__'')),
      (''__lookupSetter__'', Builtin (ObjectProtoMethod ''__lookupSetter__'')),
      (''isPrototypeOf'', Builtin (ObjectProtoMethod ''isPrototypeOf'')),
      (''propertyIsEnumerable'', Builtin (ObjectProtoMethod ''propertyIsEnumerable'')),
      (''toString'', Builtin ObjectProtoToString),
      (''valueOf'', Builtin ObjectProtoValueOf),
      (''toLocaleString'', Builtin (ObjectProtoMethod ''toLocaleString''))]"

definition object_prototype :: jsval where
  "object_prototype = Obj [] (object_proto_methods @ [(''__proto__'', Null)])"

definition object_proto_props :: "(string \<times> jsval) list" where
  "object_proto_props = object_proto_methods @ [(''__proto__'', object_prototype)]"

text \<open>An object literal \<^verbatim>\<open>{ k: v, ... }\<close>: its own properties in front of what
  \<^verbatim>\<open>Object.prototype\<close> provides.\<close>

definition object_literal :: "(string \<times> jsval) list \<Rightarrow> jsval" where
  "object_literal props = Obj [ObjectC] (props @ object_proto_props)"

definition error_chain :: "class_id \<Rightarrow> class_id list" where
  "error_chain c = (if c = ErrorC then [ErrorC, ObjectC] else [c, ErrorC, ObjectC])"

text \<open>\<^verbatim>\<open>Error.prototype\<close>, and the prototype of a class that extends \<^verbatim>\<open>Error\<close>
  directly (the native subclasses carry a name and an empty message of their own).\<close>

definition error_proto_own :: "(string \<times> jsval) list" where
  "error_proto_own =
     [(''constructor'', Builtin (Ctor ErrorC)), (''name'', Str ''Error''),
      (''message'', Str []), (''toString'', Builtin ErrorProtoToString)]"

definition error_prototype :: jsval where
  "error_prototype = Obj [ObjectC] (error_proto_own @ object_proto_props)"

definition class_prototype :: "class_id \<Rightarrow> jsval" where
  "class_prototype c =
     (if c = ErrorC then error_prototype
      else Obj [ErrorC, ObjectC]
             ([(''constructor'', Builtin (Ctor c))] @
              (if c = TypeErrorC \<or> c = RangeErrorC
               then [(''name'', Str (class_name c)), (''message'', Str [])] else []) @
              [(''__proto__'', error_prototype)] @ error_proto_own @ object_proto_props))"

text \<open>An instance of \<^verbatim>\<open>Error\<close> or of a subclass, with the given \<^verbatim>\<open>name\<close> and
  \<^verbatim>\<open>message\<close>. The engine's non-standard \<^verbatim>\<open>stack\<close> string is left out: \<open>isError\<close>
  accepts an object with a string stack and one with none alike.\<close>

definition mk_error :: "class_id \<Rightarrow> jsval \<Rightarrow> string \<Rightarrow> jsval" where
  "mk_error c nm msg =
     Obj (error_chain c)
       ([(''message'', Str msg), (''name'', nm),
         (''constructor'', Builtin (Ctor c)),
         (''toString'', Builtin ErrorProtoToString),
         (''__proto__'', class_prototype c)] @ object_proto_props)"

definition type_error :: "string \<Rightarrow> jsval" where
  "type_error msg = mk_error TypeErrorC (Str ''TypeError'') msg"

definition range_error :: "string \<Rightarrow> jsval" where
  "range_error msg = mk_error RangeErrorC (Str ''RangeError'') msg"

subsection \<open>String conversion\<close>

definition digit_char :: "nat \<Rightarrow> char" where
  "digit_char d = ''0123456789'' ! d"

fun nat_str :: "nat \<Rightarrow> string" where
  "nat_str n = (if n < 10 then [digit_char n] else nat_str (n div 10) @ [digit_char (n mod 10)])"

declare nat_str.simps [simp del]

definition int_str :: "int \<Rightarrow> string" where
  "int_str i = (if i < 0 then CHR ''-'' # nat_str (nat (- i)) else nat_str (nat i))"

text \<open>\<^verbatim>\<open>String(v)\<close> of a value that is not a plain object: a primitive, or a function
  (its source text).\<close>

fun prim_to_string :: "jsval \<Rightarrow> string" where
  "prim_to_string Undefined = ''undefined''"
| "prim_to_string Null = ''null''"
| "prim_to_string (Bool b) = (if b then ''true'' else ''false'')"
| "prim_to_string (Num n) = int_str n"
| "prim_to_string (Str s) = s"
| "prim_to_string (Builtin b) = ''function '' @ builtin_name b @ ''() { [native code] }''"
| "prim_to_string (Fun n src out) = src"
| "prim_to_string (Obj c fs) = ''[object Object]''"

fun object_tag :: "jsval \<Rightarrow> string" where
  "object_tag Undefined = ''[object Undefined]''"
| "object_tag Null = ''[object Null]''"
| "object_tag (Bool b) = ''[object Boolean]''"
| "object_tag (Num n) = ''[object Number]''"
| "object_tag (Str s) = ''[object String]''"
| "object_tag (Builtin b) = ''[object Function]''"
| "object_tag (Fun n src out) = ''[object Function]''"
| "object_tag (Obj c fs) = (if ErrorC \<in> set c then ''[object Error]'' else ''[object Object]'')"

text \<open>
  \<open>ToString\<close> is the language's string coercion (\<^verbatim>\<open>String(v)\<close>, and the coercion of
  the argument of \<^verbatim>\<open>new Error(v)\<close>): on an object it calls \<^verbatim>\<open>toString\<close>, then
  \<^verbatim>\<open>valueOf\<close>, and raises a TypeError when neither yields a primitive.
  \<open>call_method f this\<close> is the call \<^verbatim>\<open>this.m()\<close> where \<open>f\<close> is what \<^verbatim>\<open>this.m\<close> reads:
  a value that is not a function raises a TypeError. \<^verbatim>\<open>Error.prototype.toString\<close>
  joins the receiver's name and message (\<open>read_text\<close> reads one of them, with its default).
  The other methods of \<^verbatim>\<open>Object.prototype\<close> are called without an argument, so they
  work on the key \<^verbatim>\<open>undefined\<close>: \<^verbatim>\<open>hasOwnProperty\<close> and \<^verbatim>\<open>propertyIsEnumerable\<close>
  tell whether the receiver has that key (taken here as: a read finds it),
  \<^verbatim>\<open>isPrototypeOf\<close> answers false, the two lookups answer \<^verbatim>\<open>undefined\<close>, the two
  definers raise; \<^verbatim>\<open>toLocaleString\<close> calls the receiver's \<^verbatim>\<open>toString\<close>, without end
  (a RangeError) when that is \<^verbatim>\<open>toLocaleString\<close> again.
\<close>

function ToString :: "jsval \<Rightarrow> jsval + string"
  and call_method :: "jsval \<Rightarrow> jsval \<Rightarrow> jsval + jsval"
  and read_text :: "jsval \<Rightarrow> string \<Rightarrow> string \<Rightarrow> jsval + string"
where
  "ToString v =
     (case v of
        Obj c fs \<Rightarrow>
          (case (if is_callable (get_prop fs ''toString'')
                 then call_method (get_prop fs ''toString'') (Obj c fs)
                 else Inr (Obj c fs)) of
             Inl e \<Rightarrow> Inl e
           | Inr r \<Rightarrow>
               if is_primitive r then Inr (prim_to_string r)
               else
                 (case (if is_callable (get_prop fs ''valueOf'')
                        then call_method (get_prop fs ''valueOf'') (Obj c fs)
                        else Inr (Obj c fs)) of
                    Inl e \<Rightarrow> Inl e
                  | Inr r' \<Rightarrow>
                      if is_primitive r' then Inr (prim_to_string r')
                      else Inl (type_error ''Cannot convert object to primitive value'')))
      | _ \<Rightarrow> Inr (prim_to_string v))"
| "call_method f this =
     (case f of
        Fun n src out \<Rightarrow> out
      | Builtin ObjectProtoToString \<Rightarrow> Inr (Str (object_tag this))
      | Builtin ObjectProtoValueOf \<Rightarrow> Inr this
      | Builtin ErrorProtoToString \<Rightarrow>
          (case read_text this ''name'' ''Error'' of
             Inl e \<Rightarrow> Inl e
           | Inr n \<Rightarrow>
               (case read_text this ''message'' [] of
                  Inl e \<Rightarrow> Inl e
                | Inr m \<Rightarrow>
                    Inr (Str (if n = [] then m else if m = [] then n else n @ '': '' @ m))))
      | Builtin (ObjectProtoMethod n) \<Rightarrow>
          (if n = ''toLocaleString'' then
             (case this of
                Obj c fs \<Rightarrow>
                  (if get_prop fs ''toString'' = Builtin (ObjectProtoMethod ''toLocaleString'')
                   then Inl (range_error ''Maximum call stack size exceeded'')
                   else if is_callable (get_prop fs ''toString'')
                   then call_method (get_prop fs ''toString'') (Obj c fs)
                   else Inl (type_error ''not a function''))
              | _ \<Rightarrow> Inl (type_error ''Method called on incompatible receiver''))
           else if n = ''hasOwnProperty'' \<or> n = ''propertyIsEnumerable'' then
             Inr (Bool (case this of Obj c fs \<Rightarrow> has_prop fs ''undefined'' | _ \<Rightarrow> False))
           else if n = ''isPrototypeOf'' then Inr (Bool False)
           else if n = ''__lookupGetter__'' \<or> n = ''__lookupSetter__'' then Inr Undefined
           else Inl (type_error ''not a function''))
      | Builtin (Ctor c) \<Rightarrow>
          (if c = ObjectC then Inr (object_literal [])
           else if c = ErrorC \<or> c = TypeErrorC \<or> c = RangeErrorC
           then Inr (mk_error c (Str (class_name c)) [])
           else Inl (type_error ''Class constructor cannot be invoked without new''))
      | _ \<Rightarrow> Inl (type_error ''not a function''))"
| "read_text this k dflt =
     (case this of
        Obj c fs \<Rightarrow>
          (if get_prop fs k = Undefined then Inr dflt else ToString (get_prop fs k))
      | _ \<Rightarrow> Inl (type_error ''Method called on incompatible receiver''))"
  by pat_completeness auto
termination
proof -
  have smaller: "size (get_prop fs k) \<le> size_list (size_prod (\<lambda>x. 0) size) fs"
    for fs :: "(string \<times> jsval) list" and k
    by (induction fs) auto
  show ?thesis
    by (relation "measure (\<lambda>x. case x of
            Inl v \<Rightarrow> 4 * size v + 3
          | Inr (Inl (f, this)) \<Rightarrow>
              4 * size this +
                (if f = Builtin (ObjectProtoMethod ''toLocaleString'') then 2 else 1)
          | Inr (Inr (this, k, d)) \<Rightarrow> 4 * size this)")
       (auto simp add: le_imp_less_Suc smaller)
qed

declare ToString.simps [simp del] call_method.simps [simp del] read_text.simps [simp del]

section \<open>Error classification and normalization (src/error.ts)\<close>

definition isObject :: "jsval \<Rightarrow> bool" where
  "isObject v = (typeof v = ''object'' \<and> v \<noteq> Null)"

text \<open>\<^verbatim>\<open>JSON.stringify\<close> is the engine's; it is a parameter of the functions that call it.
  On an object it returns the text, returns \<^verbatim>\<open>undefined\<close>, or raises (a cyclic
  structure).\<close>

datatype json_result = JsonText string | JsonUndefined | JsonThrows

text \<open>\<open>getObjectMessage\<close>: a string \<^verbatim>\<open>message\<close> property first; else a
  \<^verbatim>\<open>toString\<close> that is not \<^verbatim>\<open>Object.prototype.toString\<close> is called; else
  \<^verbatim>\<open>JSON.stringify\<close>, and \<^verbatim>\<open>String(obj)\<close> when that raises.\<close>

definition getObjectMessage :: "(jsval \<Rightarrow> json_result) \<Rightarrow> jsval \<Rightarrow> jsval + jsval" where
  "getObjectMessage stringify obj =
     (if typeof (get obj ''message'') = ''string'' then Inr (get obj ''message'')
      else if get obj ''toString'' \<noteq> Builtin ObjectProtoToString
      then call_method (get obj ''toString'') obj
      else
        (case stringify obj of
           JsonText s \<Rightarrow> Inr (Str s)
         | JsonUndefined \<Rightarrow> Inr Undefined
         | JsonThrows \<Rightarrow>
             (case ToString obj of Inl e \<Rightarrow> Inl e | Inr s \<Rightarrow> Inr (Str s))))"

definition isError :: "jsval \<Rightarrow> bool" where
  "isError err =
     (isObject err \<and>
      typeof (get err ''name'') = ''string'' \<and>
      typeof (get err ''message'') = ''string'' \<and>
      (\<not> prop_in ''stack'' err \<or> typeof (get err ''stack'') = ''string''))"

text \<open>The constructor of \<^verbatim>\<open>Error\<close>, run for an instance of class \<open>c\<close> (by
  \<^verbatim>\<open>new Error(message)\<close>, or by \<^verbatim>\<open>super(message)\<close> in a subclass): the message is
  coerced to a string unless it is \<^verbatim>\<open>undefined\<close>, where the inherited empty message
  shows; the name is the inherited \<^verbatim>\<open>Error.prototype.name\<close>.\<close>

definition construct_error :: "class_id \<Rightarrow> jsval \<Rightarrow> jsval + jsval" where
  "construct_error c message =
     (if message = Undefined then Inr (mk_error c (Str ''Error'') [])
      else
        (case ToString message of
           Inl e \<Rightarrow> Inl e
         | Inr s \<Rightarrow> Inr (mk_error c (Str ''Error'') s)))"

definition new_Error :: "jsval \<Rightarrow> jsval + jsval" where
  "new_Error message = construct_error ErrorC message"

text \<open>The read \<^verbatim>\<open>v.name\<close>: raises on \<^verbatim>\<open>undefined\<close> and \<^verbatim>\<open>null\<close>.\<close>

fun name_of :: "jsval \<Rightarrow> jsval + jsval" where
  "name_of Undefined = Inl (type_error ''Cannot read properties of undefined'')"
| "name_of Null = Inl (type_error ''Cannot read properties of null'')"
| "name_of (Obj c fs) = Inr (get_prop fs ''name'')"
| "name_of (Fun n src out) = Inr (Str n)"
| "name_of (Builtin b) = Inr (Str (builtin_name b))"
| "name_of v = Inr Undefined"

definition asError :: "(jsval \<Rightarrow> json_result) \<Rightarrow> jsval \<Rightarrow> jsval + jsval" where
  "asError stringify err =
     (if isError err then Inr err
      else
        (case (if isObject err then getObjectMessage stringify err
               else (case ToString err of Inl e \<Rightarrow> Inl e | Inr s \<Rightarrow> Inr (Str s))) of
           Inl e \<Rightarrow> Inl e
         | Inr message \<Rightarrow>
             (case new_Error message of
                Inl e \<Rightarrow> Inl e
              | Inr error \<Rightarrow>
                  (case (if isObject err then name_of (get err ''constructor'')
                         else Inr (Bool False)) of
                     Inl e \<Rightarrow> Inl e
                   | Inr n \<Rightarrow>
                       Inr (assign error ''name''
                              (if truthy n then n else Str (typeof err)))))))"

subsection \<open>Values for examples\<close>

text \<open>\<^verbatim>\<open>Object.create(null)\<close>: an object with no prototype, so with no property at all.\<close>

definition null_prototype_object :: jsval where
  "null_prototype_object = Obj [] []"

text \<open>\<^verbatim>\<open>{ name: 'X', message: 'm' }\<close>: an object literal with the shape of an error.\<close>

definition shaped_literal :: jsval where
  "shaped_literal = object_literal [(''name'', Str ''X''), (''message'', Str ''m'')]"

text \<open>\<^verbatim>\<open>{ message: 'm', constructor: null }\<close>.\<close>

definition null_ctor_object :: jsval where
  "null_ctor_object = object_literal [(''message'', Str ''m''), (''constructor'', Null)]"

text \<open>\<^verbatim>\<open>{ message: 'm', constructor: { name: 42 } }\<close>.\<close>

definition numbered_ctor_object :: jsval where
  "numbered_ctor_object =
     object_literal [(''message'', Str ''m''),
                     (''constructor'', object_literal [(''name'', Num 42)])]"

text \<open>\<^verbatim>\<open>JSON.stringify\<close> as it behaves on a cyclic structure.\<close>

definition stringify_cyclic :: "jsval \<Rightarrow> json_result" where
  "stringify_cyclic v = JsonThrows"

section \<open>Request validation (src/validation.ts)\<close>

text \<open>\<^verbatim>\<open>class InvalidRequestError extends Error\<close>: the constructor calls
  \<^verbatim>\<open>super(message)\<close> and sets \<^verbatim>\<open>this.name\<close>.\<close>

definition new_InvalidRequestError :: "jsval \<Rightarrow> jsval + jsval" where
  "new_InvalidRequestError message =
     (case construct_error InvalidRequestErrorC message of
        Inl e \<Rightarrow> Inl e
      | Inr this \<Rightarrow> Inr (assign this ''name'' (Str ''InvalidRequestError'')))"

text \<open>\<^verbatim>\<open>throw new InvalidRequestError(message)\<close>: the construction may itself raise.\<close>

definition throw_InvalidRequestError :: "jsval \<Rightarrow> jsval + 'a" where
  "throw_InvalidRequestError message =
     (case new_InvalidRequestError message of Inl e \<Rightarrow> Inl e | Inr error \<Rightarrow> Inl error)"

fun join :: "string \<Rightarrow> string list \<Rightarrow> string" where
  "join sep [] = []"
| "join sep [x] = x"
| "join sep (x # y # ys) = x @ sep @ join sep (y # ys)"

text \<open>The operator \<^verbatim>\<open>key in obj\<close> where the operand is only typed as an object: it
  raises a TypeError on a primitive, and else looks through own and inherited
  properties.\<close>

definition in_operator :: "string \<Rightarrow> jsval \<Rightarrow> jsval + bool" where
  "in_operator key obj =
     (if is_primitive obj
      then Inl (type_error ''Cannot use the in operator to search in a primitive'')
      else Inr (prop_in key obj))"

text \<open>The loop of \<open>throwIfMissing\<close>, with the list \<^verbatim>\<open>missing\<close> as its accumulator.\<close>

fun collect_missing :: "jsval \<Rightarrow> string list \<Rightarrow> string list \<Rightarrow> jsval + string list" where
  "collect_missing obj [] missing = Inr missing"
| "collect_missing obj (key # keys) missing =
     (case in_operator key obj of
        Inl e \<Rightarrow> Inl e
      | Inr found \<Rightarrow>
          collect_missing obj keys
            (if \<not> found \<or> \<not> truthy (get obj key) then missing @ [key] else missing))"

definition throwIfMissing :: "jsval \<Rightarrow> string list \<Rightarrow> jsval + unit" where
  "throwIfMissing obj keys =
     (case collect_missing obj keys [] of
        Inl e \<Rightarrow> Inl e
      | Inr missing \<Rightarrow>
          if length missing > 0
          then throw_InvalidRequestError
                 (Str (''Missing required fields: '' @ join '', '' missing))
          else Inr ())"

text \<open>The request of the function runtime. \<^verbatim>\<open>bodyJson\<close> is read through a getter of
  the runtime that parses the body, so the read may raise (\<open>Inl\<close>).\<close>

record Request =
  bodyText :: string
  bodyJson :: "jsval + jsval"
  headers :: "(string \<times> string) list"
  scheme :: string
  "method" :: string
  url :: string
  host :: string
  port :: string
  path :: string
  queryString :: string
  query :: "(string \<times> string) list"

definition getData ::
  "(jsval \<Rightarrow> json_result) \<Rightarrow> Request \<Rightarrow> (jsval \<Rightarrow> jsval + 'a) \<Rightarrow> jsval + 'a" where
  "getData stringify req validator =
     (case bodyJson req of
        Inl err \<Rightarrow> throw_InvalidRequestError (Str ''Invalid request body'')
      | Inr body \<Rightarrow>
          (case validator body of
             Inr data \<Rightarrow> Inr data
           | Inl err \<Rightarrow>
               (case asError stringify err of
                  Inl e \<Rightarrow> Inl e
                | Inr error \<Rightarrow> throw_InvalidRequestError (get error ''message''))))"

section \<open>Router\<close>

text \<open>
  The runtime's capabilities \<^verbatim>\<open>res\<close>, \<^verbatim>\<open>log\<close> and \<^verbatim>\<open>error\<close> are typed as functions
  returning \<^verbatim>\<open>void\<close>; a call to one of them is recorded as an event, in call order,
  and returns normally.
\<close>

datatype event =
    ResEmpty
  | ResJson jsval "int option"
  | ResBinary "nat list" "int option"
  | ResText string "int option"
  | ResRedirect string "int option"
  | LogCall "jsval list"
  | ErrorCall "jsval list"

text \<open>\<^verbatim>\<open>RouteHandlerDef\<close> without the three capabilities, and
  \<^verbatim>\<open>RouteHandlerParams\<close>, which adds the parameters of the route path.\<close>

record 'c RouteHandlerDef =
  req :: Request
  "context" :: 'c

record 'c RouteHandlerParams = "'c RouteHandlerDef" +
  params :: "(string \<times> jsval) list"

text \<open>A route handler is an asynchronous function: it is given by the capability calls
  it makes and by how its promise settles, rejected with a value (\<open>Inl\<close>) or
  fulfilled (\<open>Inr\<close>). A handler whose promise never settles is not represented:
  \<open>handle\<close> awaits it and stays pending with it.\<close>

type_synonym 'c RouteHandler = "'c RouteHandlerParams \<Rightarrow> event list \<times> (jsval + unit)"

type_synonym 'c RouteDef = "string \<times> 'c RouteHandler"

text \<open>
  The package \<^verbatim>\<open>route-recognizer\<close> is third-party code; the router is parametric in it.
  \<open>rr_new\<close> is \<^verbatim>\<open>new RouteRecognizer()\<close>, \<open>rr_add\<close> is \<^verbatim>\<open>add\<close> and
  \<open>rr_recognize\<close> is \<^verbatim>\<open>recognize\<close>, which returns \<^verbatim>\<open>undefined\<close> (\<open>None\<close>) or an
  array-like of results, each with a handler and the parameters.
\<close>

record ('r, 'h) RouteRecognizer =
  rr_new :: 'r
  rr_add :: "'r \<Rightarrow> (string \<times> 'h) list \<Rightarrow> 'r"
  rr_recognize :: "'r \<Rightarrow> string \<Rightarrow> ('h \<times> (string \<times> jsval) list) list option"

text \<open>The constructor: one \<^verbatim>\<open>add\<close> per route, in order.\<close>

fun register :: "('r, 'h) RouteRecognizer \<Rightarrow> 'r \<Rightarrow> (string \<times> 'h) list \<Rightarrow> 'r" where
  "register lib recognizer [] = recognizer"
| "register lib recognizer (route # routes) =
     register lib (rr_add lib recognizer [(fst route, snd route)]) routes"

definition Router :: "('r, 'h) RouteRecognizer \<Rightarrow> (string \<times> 'h) list \<Rightarrow> 'r" where
  "Router lib routes = register lib (rr_new lib) routes"

definition match ::
  "('r, 'h) RouteRecognizer \<Rightarrow> 'r \<Rightarrow> Request \<Rightarrow> 'h option \<times> (string \<times> jsval) list" where
  "match lib recognizer rq =
     (case rr_recognize lib recognizer (path rq) of
        None \<Rightarrow> (None, [])
      | Some [] \<Rightarrow> (None, [])
      | Some (r # rs) \<Rightarrow> (Some (fst r), snd r))"

text \<open>\<open>handle\<close> returns the events of the call, in order, and how its own promise
  settles.\<close>

definition handle ::
  "('r, 'c RouteHandler) RouteRecognizer \<Rightarrow> 'r \<Rightarrow> 'c RouteHandlerDef
     \<Rightarrow> event list \<times> (jsval + unit)" where
  "handle lib recognizer data =
     (case match lib recognizer (req data) of
        (None, ps) \<Rightarrow>
          ([ResJson (object_literal [(''error'', Str ''Not Found'')]) (Some 404)], Inr ())
      | (Some handler, ps) \<Rightarrow>
          (case handler \<lparr>req = req data, context = context data, params = ps\<rparr> of
             (evs, Inr u) \<Rightarrow> (evs, Inr u)
           | (evs, Inl err) \<Rightarrow>
               (evs @ [ErrorCall [err]] @
                  (if instanceof err InvalidRequestErrorC
                   then [ResJson (object_literal [(''error'', get err ''message'')]) (Some 400)]
                   else [ResJson (object_literal [(''error'', Str ''Internal Server Error'')])
                           (Some 500)]),
                Inr ())))"

subsection \<open>A recognizer for examples\<close>

text \<open>A recognizer of literal paths only, to run the router on concrete inputs.\<close>

definition literal_recognizer :: "((string \<times> 'h) list, 'h) RouteRecognizer" where
  "literal_recognizer =
     \<lparr>rr_new = [],
      rr_add = (\<lambda>r routes. r @ routes),
      rr_recognize = (\<lambda>r p.
         (case filter (\<lambda>route. fst route = p) r of
            [] \<Rightarrow> None
          | found \<Rightarrow> Some (map (\<lambda>route. (snd route, [])) found)))\<rparr>"

definition empty_request :: Request where
  "empty_request =
     \<lparr>bodyText = [], bodyJson = Inr (Str []), headers = [], scheme = ''https'',
      method = ''GET'', url = ''https://localhost/'', host = ''localhost'', port = ''443'',
      path = ''/'', queryString = [], query = []\<rparr>"


definition not_found_response :: event where
  "not_found_response = ResJson (object_literal [(''error'', Str ''Not Found'')]) (Some 404)"

definition client_error_response :: "jsval \<Rightarrow> event" where
  "client_error_response m = ResJson (object_literal [(''error'', m)]) (Some 400)"

definition server_error_response :: event where
  "server_error_response =
     ResJson (object_literal [(''error'', Str ''Internal Server Error'')]) (Some 500)"

subsection \<open>The router with capabilities and a recognizer that may raise\<close>

text \<open>
  \<open>handle\<close> above takes the calls of \<^verbatim>\<open>recognize\<close>, \<^verbatim>\<open>res.json\<close> and \<^verbatim>\<open>error\<close> as
  returning normally. They are functions supplied from outside, and any of them may
  raise: \<open>match_env\<close> and \<open>handle_env\<close> are \<open>match\<close> and \<open>handle\<close> with that written
  out. A capability is given by what a call of it raises (\<open>None\<close>: it returns); the call
  is recorded as an event in either case. \<^verbatim>\<open>this.match\<close> is called before the
  \<^verbatim>\<open>try\<close>, the not-found response is sent outside it, and \<^verbatim>\<open>data.error\<close> and the
  two error responses are called inside the \<^verbatim>\<open>catch\<close> block: a raise in any of them
  rejects the promise of \<open>handle\<close>.
\<close>

record capabilities =
  res_json_raises :: "jsval \<Rightarrow> int option \<Rightarrow> jsval option"
  error_raises :: "jsval list \<Rightarrow> jsval option"

definition call_res_json :: "capabilities \<Rightarrow> jsval \<Rightarrow> int option \<Rightarrow> event list \<times> (jsval + unit)" where
  "call_res_json caps body status =
     ([ResJson body status],
      (case res_json_raises caps body status of None \<Rightarrow> Inr () | Some e \<Rightarrow> Inl e))"

definition match_env ::
  "(string \<Rightarrow> jsval + ('h \<times> (string \<times> jsval) list) list option) \<Rightarrow> Request
     \<Rightarrow> jsval + ('h option \<times> (string \<times> jsval) list)" where
  "match_env recognize rq =
     (case recognize (path rq) of
        Inl e \<Rightarrow> Inl e
      | Inr None \<Rightarrow> Inr (None, [])
      | Inr (Some []) \<Rightarrow> Inr (None, [])
      | Inr (Some (r # rs)) \<Rightarrow> Inr (Some (fst r), snd r))"

definition handle_env ::
  "capabilities \<Rightarrow> (string \<Rightarrow> jsval + ('c RouteHandler \<times> (string \<times> jsval) list) list option)
     \<Rightarrow> 'c RouteHandlerDef \<Rightarrow> event list \<times> (jsval + unit)" where
  "handle_env caps recognize data =
     (case match_env recognize (req data) of
        Inl e \<Rightarrow> ([], Inl e)
      | Inr (None, ps) \<Rightarrow>
          call_res_json caps (object_literal [(''error'', Str ''Not Found'')]) (Some 404)
      | Inr (Some handler, ps) \<Rightarrow>
          (case handler \<lparr>req = req data, context = context data, params = ps\<rparr> of
             (evs, Inr u) \<Rightarrow> (evs, Inr u)
           | (evs, Inl err) \<Rightarrow>
               (case error_raises caps [err] of
                  Some e \<Rightarrow> (evs @ [ErrorCall [err]], Inl e)
                | None \<Rightarrow>
                    (case (if instanceof err InvalidRequestErrorC
                           then call_res_json caps
                                  (object_literal [(''error'', get err ''message'')]) (Some 400)
                           else call_res_json caps
                                  (object_literal [(''error'', Str ''Internal Server Error'')])
                                  (Some 500)) of
                       (sent, r) \<Rightarrow> (evs @ [ErrorCall [err]] @ sent, r)))))"

text \<open>Capabilities that return normally, a recognizer of the first kind seen as one that
  does not raise, and capabilities whose log, or whose response, raises.\<close>

definition quiet_capabilities :: capabilities where
  "quiet_capabilities = \<lparr>res_json_raises = (\<lambda>body status. None), error_raises = (\<lambda>vs. None)\<rparr>"

definition recognize_of ::
  "('r, 'h) RouteRecognizer \<Rightarrow> 'r \<Rightarrow> string \<Rightarrow> jsval + ('h \<times> (string \<times> jsval) list) list option" where
  "recognize_of lib recognizer p = Inr (rr_recognize lib recognizer p)"

definition failing_log :: capabilities where
  "failing_log =
     \<lparr>res_json_raises = (\<lambda>body status. None),
      error_raises = (\<lambda>vs. Some (mk_error ErrorC (Str ''Error'') ''log unavailable''))\<rparr>"

definition failing_response :: capabilities where
  "failing_response =
     \<lparr>res_json_raises =
        (\<lambda>body status. Some (mk_error ErrorC (Str ''Error'') ''response unavailable'')),
      error_raises = (\<lambda>vs. None)\<rparr>"

subsection \<open>The outcomes of a dispatch\<close>

text \<open>The four outcomes of one call of \<open>handle_env\<close>, each read off the match, the
  settled handler and the events of the call: no route and the not-found response
  alone; a handler that completes, with nothing added to its events; a handler that
  raises, followed by the log call and the client-error or the server-error response.\<close>

datatype outcome = NotFound | Completed | ClientError | ServerError

definition outcome_occurs ::
  "capabilities \<Rightarrow> (string \<Rightarrow> jsval + ('c RouteHandler \<times> (string \<times> jsval) list) list option)
     \<Rightarrow> 'c RouteHandlerDef \<Rightarrow> outcome \<Rightarrow> bool" where
  "outcome_occurs caps recognize data out =
     (case match_env recognize (req data) of
        Inl e \<Rightarrow> False
      | Inr (None, ps) \<Rightarrow>
          out = NotFound \<and> fst (handle_env caps recognize data) = [not_found_response]
      | Inr (Some handler, ps) \<Rightarrow>
          (case handler \<lparr>req = req data, context = context data, params = ps\<rparr> of
             (evs, Inr u) \<Rightarrow> out = Completed \<and> fst (handle_env caps recognize data) = evs
           | (evs, Inl err) \<Rightarrow>
               (out = ClientError \<and> instanceof err InvalidRequestErrorC \<and>
                fst (handle_env caps recognize data) =
                  evs @ [ErrorCall [err], client_error_response (get err ''message'')]) \<or>
               (out = ServerError \<and> \<not> instanceof err InvalidRequestErrorC \<and>
                fst (handle_env caps recognize data) =
                  evs @ [ErrorCall [err], server_error_response])))"

subsection \<open>Handlers for examples\<close>

definition raising_handler :: "event list \<Rightarrow> jsval \<Rightarrow> unit RouteHandler" where
  "raising_handler evs err = (\<lambda>p. (evs, Inl err))"

definition completing_handler :: "event list \<Rightarrow> unit RouteHandler" where
  "completing_handler evs = (\<lambda>p. (evs, Inr ()))"

definition request_to :: "string \<Rightarrow> unit RouteHandlerDef" where
  "request_to p = \<lparr>req = empty_request\<lparr>path := p\<rparr>, context = ()\<rparr>"

section \<open>Facts about values, string conversion and constructors\<close>

lemma ToString_non_object:
  assumes "\<forall>c fs. v \<noteq> Obj c fs"
  shows "ToString v = Inr (prim_to_string v)"
  using assms by (cases v) (auto simp add: ToString.simps)

lemma ToString_Str [simp]: "ToString (Str s) = Inr s"
  by (simp add: ToString.simps)

lemma ToString_default:
  assumes "get_prop fs ''toString'' = Builtin ObjectProtoToString"
  shows "ToString (Obj c fs) = Inr (object_tag (Obj c fs))"
  using assms by (simp add: ToString.simps call_method.simps)

lemma isObject_Obj [simp]: "isObject (Obj c fs)"
  by (simp add: isObject_def)

lemma isObject_cases: "isObject v \<Longrightarrow> \<exists>c fs. v = Obj c fs"
  by (cases v) (simp_all add: isObject_def)

lemma typeof_string_conv: "(typeof v = ''string'') = (\<exists>s. v = Str s)"
  by (cases v) simp_all

lemma construct_error_Str [simp]:
  "construct_error c (Str s) = Inr (mk_error c (Str ''Error'') s)"
  by (simp add: construct_error_def)

lemma assign_name_mk_error [simp]:
  "assign (mk_error c n m) ''name'' n' = mk_error c n' m"
  by (simp add: mk_error_def)

lemma isError_mk_error [simp]: "isError (mk_error c n m) = (typeof n = ''string'')"
  by (simp add: isError_def mk_error_def object_proto_props_def object_proto_methods_def)

lemma get_mk_error [simp]:
  "get (mk_error c n m) ''message'' = Str m" "get (mk_error c n m) ''name'' = n"
  by (simp_all add: mk_error_def)

lemma new_InvalidRequestError_Str [simp]:
  "new_InvalidRequestError (Str s) =
     Inr (mk_error InvalidRequestErrorC (Str ''InvalidRequestError'') s)"
  by (simp add: new_InvalidRequestError_def)

lemma throw_InvalidRequestError_Str [simp]:
  "throw_InvalidRequestError (Str s) =
     Inl (mk_error InvalidRequestErrorC (Str ''InvalidRequestError'') s)"
  by (simp add: throw_InvalidRequestError_def)

lemma new_Error_primitive:
  assumes "\<forall>c fs. m \<noteq> Obj c fs"
  shows "new_Error m =
           Inr (mk_error ErrorC (Str ''Error'') (if m = Undefined then [] else prim_to_string m))"
  using assms by (simp add: new_Error_def construct_error_def ToString_non_object)

lemma new_Error_result:
  assumes "new_Error m = Inr e"
  shows "\<exists>s. e = mk_error ErrorC (Str ''Error'') s"
  using assms by (auto simp add: new_Error_def construct_error_def split: if_splits sum.splits)

lemma name_of_defined:
  assumes "v \<noteq> Undefined" and "v \<noteq> Null"
  shows "\<exists>n. name_of v = Inr n"
  using assms by (cases v) simp_all

subsection \<open>The three ways through \<open>asError\<close>\<close>

lemma asError_isError: "isError v \<Longrightarrow> asError stringify v = Inr v"
  by (simp add: asError_def)

lemma asError_non_object:
  assumes "\<not> isObject v"
  shows "asError stringify v = Inr (mk_error ErrorC (Str (typeof v)) (prim_to_string v))"
proof -
  have no: "\<forall>c fs. v \<noteq> Obj c fs" using assms by auto
  have ne: "\<not> isError v" using assms by (simp add: isError_def)
  show ?thesis
    using assms ne by (simp add: asError_def ToString_non_object [OF no] new_Error_def)
qed

subsection \<open>The loop of \<open>throwIfMissing\<close>\<close>

lemma in_operator_Obj [simp]: "in_operator key (Obj c fs) = Inr (has_prop fs key)"
  by (simp add: in_operator_def)


subsection \<open>\<open>getData\<close> on its three paths\<close>

lemma getData_body_unreadable:
  assumes "bodyJson rq = Inl x"
  shows "getData stringify rq validator =
           Inl (mk_error InvalidRequestErrorC (Str ''InvalidRequestError'')
                  ''Invalid request body'')"
  using assms by (simp add: getData_def)

lemma getData_validator_raises:
  assumes "bodyJson rq = Inr body" and "validator body = Inl err"
    and "asError stringify err = Inr e" and "get e ''message'' = Str m"
  shows "getData stringify rq validator =
           Inl (mk_error InvalidRequestErrorC (Str ''InvalidRequestError'') m)"
  using assms by (simp add: getData_def)

lemma getData_success:
  assumes "bodyJson rq = Inr body" and "validator body = Inr data"
  shows "getData stringify rq validator = Inr data"
  using assms by (simp add: getData_def)

subsection \<open>\<open>handle\<close> is \<open>handle_env\<close> where nothing but the handler raises\<close>

lemma match_env_recognize_of:
  "match_env (recognize_of lib r) rq = Inr (match lib r rq)"
  by (simp add: match_env_def match_def recognize_of_def split: option.splits list.splits)

lemma handle_env_quiet:
  "handle_env quiet_capabilities (recognize_of lib r) data = handle lib r data"
  by (simp add: handle_env_def handle_def match_env_recognize_of call_res_json_def
        quiet_capabilities_def split: prod.splits option.splits sum.splits)

section \<open>Properties of the router\<close>







text \<open>Claim C4, as stated, fails: \<open>handle\<close> raises when a capability it calls raises.
  With an \<^verbatim>\<open>error\<close> function that throws, a handler's failure is caught and the throw
  of the log call, inside the \<^verbatim>\<open>catch\<close> block, rejects \<open>handle\<close> before any response;
  with a \<^verbatim>\<open>res.json\<close> that throws, the not-found response rejects it.\<close>

theorem handle_env_raises_counterexample:
  "handle_env failing_log
     (recognize_of literal_recognizer
        (Router literal_recognizer [(''/users'', raising_handler [] Null)]))
     (request_to ''/users'') =
   ([ErrorCall [Null]], Inl (mk_error ErrorC (Str ''Error'') ''log unavailable'')) \<and>
   handle_env failing_response
     (recognize_of literal_recognizer
        (Router literal_recognizer [(''/users'', raising_handler [] Null)]))
     (request_to ''/missing'') =
   ([not_found_response], Inl (mk_error ErrorC (Str ''Error'') ''response unavailable''))"
  by (simp add: handle_env_def match_env_def recognize_of_def Router_def
        literal_recognizer_def request_to_def raising_handler_def failing_log_def
        failing_response_def call_res_json_def not_found_response_def)

text \<open>Claim C4, amended. Provided that the recognizer returns for the request path and
  that the capabilities \<^verbatim>\<open>res.json\<close> and \<^verbatim>\<open>error\<close> return normally, \<open>handle\<close> never
  raises, for every route table, handler and invocation context: a failure raised by
  the matched handler is caught and turned into a response; and exactly one of the four
  outcomes (not found, handler completed, client error, server error) occurs.\<close>

theorem handle_env_never_raises:
  assumes rec: "recognize (path (req data)) = Inr results"
    and json: "\<And>body status. res_json_raises caps body status = None"
    and log: "\<And>values. error_raises caps values = None"
  shows "snd (handle_env caps recognize data) = Inr () \<and>
         (\<exists>!out. outcome_occurs caps recognize data out)"
proof -
  have "\<exists>ho ps. match_env recognize (req data) = Inr (ho, ps)"
    using rec by (simp add: match_env_def split: option.splits list.splits)
  then obtain ho ps where m: "match_env recognize (req data) = Inr (ho, ps)"
    by blast
  show ?thesis
  proof (cases ho)
    case None
    with m json show ?thesis
      by (auto simp add: outcome_occurs_def handle_env_def call_res_json_def
            not_found_response_def)
  next
    case (Some h)
    obtain evs res where
      run: "h \<lparr>req = req data, context = context data, params = ps\<rparr> = (evs, res)"
      by (cases "h \<lparr>req = req data, context = context data, params = ps\<rparr>")
    show ?thesis
    proof (cases res)
      case (Inr u)
      with m Some run show ?thesis
        by (auto simp add: outcome_occurs_def handle_env_def)
    next
      case (Inl err)
      with m Some run json log show ?thesis
        by (cases "instanceof err InvalidRequestErrorC")
           (auto simp add: outcome_occurs_def handle_env_def call_res_json_def
              client_error_response_def server_error_response_def)
    qed
  qed
qed

theorem handle_env_never_raises_witness:
  "snd (handle_env quiet_capabilities
          (recognize_of literal_recognizer
             (Router literal_recognizer [(''/users'', raising_handler [] Null)]))
          (request_to ''/users'')) = Inr () \<and>
   outcome_occurs quiet_capabilities
     (recognize_of literal_recognizer
        (Router literal_recognizer [(''/users'', raising_handler [] Null)]))
     (request_to ''/users'') ServerError"
proof -
  let ?rec = "recognize_of literal_recognizer
                (Router literal_recognizer [(''/users'', raising_handler [] Null)])"
  let ?d = "request_to ''/users''"
  have r: "?rec (path (req ?d)) = Inr (Some [(raising_handler [] Null, [])])"
    by (simp add: recognize_of_def Router_def literal_recognizer_def request_to_def)
  have j: "\<And>body status. res_json_raises quiet_capabilities body status = None"
    and l: "\<And>values. error_raises quiet_capabilities values = None"
    by (simp_all add: quiet_capabilities_def)
  have o: "outcome_occurs quiet_capabilities ?rec ?d ServerError"
    by (simp add: outcome_occurs_def handle_env_def match_env_def recognize_of_def Router_def
          literal_recognizer_def request_to_def raising_handler_def quiet_capabilities_def
          call_res_json_def server_error_response_def)
  show ?thesis
    using handle_env_never_raises [of ?rec ?d _ quiet_capabilities, OF r j l] o by simp
qed

text \<open>Claim C8. \<open>match\<close> depends on the route table and on the path of the request only:
  two requests with the same path, whatever their method, headers, query and body, get
  the same result from the same router (and so does the same request, asked twice).\<close>

theorem match_path_only:
  assumes "path rq1 = path rq2"
  shows "match lib r rq1 = match lib r rq2"
  using assms by (simp add: match_def)

theorem match_path_only_witness:
  "match literal_recognizer
     (Router literal_recognizer [(''/users'', completing_handler [])])
     (empty_request\<lparr>path := ''/users''\<rparr>) =
   match literal_recognizer
     (Router literal_recognizer [(''/users'', completing_handler [])])
     (empty_request\<lparr>path := ''/users'', method := ''POST'',
        headers := [(''x-appwrite-trigger'', ''http'')], query := [(''limit'', ''12'')],
        queryString := ''limit=12'', bodyText := ''{}'', bodyJson := Inr (object_literal [])\<rparr>)"
proof -
  have p: "path (empty_request\<lparr>path := ''/users''\<rparr>) =
           path (empty_request\<lparr>path := ''/users'', method := ''POST'',
             headers := [(''x-appwrite-trigger'', ''http'')], query := [(''limit'', ''12'')],
             queryString := ''limit=12'', bodyText := ''{}'',
             bodyJson := Inr (object_literal [])\<rparr>)"
    by simp
  show ?thesis
    by (rule match_path_only [OF p])
qed



section \<open>Properties of the validation helpers\<close>

text \<open>Claim C5. \<open>getData\<close> is to raise only \<^verbatim>\<open>InvalidRequestError\<close>: for an unreadable
  body with the message \<^verbatim>\<open>Invalid request body\<close>, and for whatever the validator
  raises with the normalized message of that value. The code does not, when the validator
  raises a value that \<open>asError\<close> cannot normalize: for the object without prototype
  \<^verbatim>\<open>Object.create(null)\<close> the call \<^verbatim>\<open>obj.toString()\<close> in \<open>getObjectMessage\<close> raises a
  TypeError, inside the \<^verbatim>\<open>catch\<close> block of \<open>getData\<close>, and that TypeError, which is no
  instance of \<^verbatim>\<open>InvalidRequestError\<close>, is what \<open>getData\<close> raises.\<close>

theorem getData_raises_type_error:
  "getData stringify (empty_request\<lparr>bodyJson := Inr body\<rparr>) (\<lambda>b. Inl null_prototype_object)
     = (Inl (type_error ''not a function'') :: jsval + jsval) \<and>
   \<not> instanceof (type_error ''not a function'') InvalidRequestErrorC"
  by (simp add: getData_def asError_def isError_def null_prototype_object_def
        getObjectMessage_def call_method.simps type_error_def mk_error_def error_chain_def)




text \<open>On a primitive the operator \<^verbatim>\<open>in\<close> raises, and so does \<open>throwIfMissing\<close> once it
  tests a key.\<close>

lemma throwIfMissing_primitive:
  "throwIfMissing (Num 5) [''a''] =
     Inl (type_error ''Cannot use the in operator to search in a primitive'')"
  by (simp add: throwIfMissing_def in_operator_def)

text \<open>A validator that raises \<^verbatim>\<open>new Error('bad shape')\<close>: \<open>getData\<close> raises an
  \<^verbatim>\<open>InvalidRequestError\<close> with that message.\<close>

lemma getData_bad_shape:
  "getData stringify (empty_request\<lparr>bodyJson := Inr body\<rparr>)
     (\<lambda>b. Inl (mk_error ErrorC (Str ''Error'') ''bad shape''))
   = (Inl (mk_error InvalidRequestErrorC (Str ''InvalidRequestError'') ''bad shape'')
        :: jsval + jsval)"
  by (simp add: getData_def asError_isError)

section \<open>Properties of the error helpers\<close>

text \<open>Claim C7. \<open>asError\<close> is to turn every value into an error and never to raise. The
  code raises on an object without the members it reads: for \<^verbatim>\<open>Object.create(null)\<close>
  the read \<^verbatim>\<open>obj.toString\<close> is \<^verbatim>\<open>undefined\<close> and the call \<^verbatim>\<open>obj.toString()\<close> in
  \<open>getObjectMessage\<close> raises a TypeError; for
  \<^verbatim>\<open>{ message: 'm', constructor: null }\<close> the message is found and the read
  \<^verbatim>\<open>err.constructor.name\<close> raises a TypeError. This holds whatever \<^verbatim>\<open>JSON.stringify\<close>
  does.\<close>

theorem asError_raises_type_error:
  "asError stringify null_prototype_object = Inl (type_error ''not a function'') \<and>
   asError stringify null_ctor_object = Inl (type_error ''Cannot read properties of null'')"
  by (simp add: asError_def isError_def null_prototype_object_def null_ctor_object_def
        object_literal_def object_proto_props_def object_proto_methods_def
        getObjectMessage_def call_method.simps new_Error_def)

text \<open>On \<^verbatim>\<open>null\<close>, on 42 and on an object literal on which \<^verbatim>\<open>JSON.stringify\<close> raises (a
  cyclic structure) \<open>asError\<close> returns: the message is the string conversion of the
  value, the name its \<^verbatim>\<open>typeof\<close> tag or the name of its constructor.\<close>

lemma asError_examples:
  "asError stringify Null = Inr (mk_error ErrorC (Str ''object'') ''null'')"
  "asError stringify (Num 42) = Inr (mk_error ErrorC (Str ''number'') ''42'')"
  "asError stringify_cyclic (object_literal []) =
     Inr (mk_error ErrorC (Str ''Object'') ''[object Object]'')"
proof -
  show "asError stringify Null = Inr (mk_error ErrorC (Str ''object'') ''null'')"
    by (simp add: asError_non_object isObject_def)
  show "asError stringify (Num 42) = Inr (mk_error ErrorC (Str ''number'') ''42'')"
    by (simp add: asError_non_object isObject_def int_str_def nat_str.simps digit_char_def)
  show "asError stringify_cyclic (object_literal []) =
          Inr (mk_error ErrorC (Str ''Object'') ''[object Object]'')"
    by (simp add: asError_def isError_def object_literal_def object_proto_props_def
          object_proto_methods_def getObjectMessage_def stringify_cyclic_def ToString_default
          new_Error_def)
qed

text \<open>Claim C10, as stated, fails: \<open>asError\<close> copies the name of the constructor as it
  is. For \<^verbatim>\<open>{ message: 'm', constructor: { name: 42 } }\<close> it returns an error whose name
  is the number 42, which \<open>isError\<close> rejects, and a second \<open>asError\<close> returns another
  value, named \<^verbatim>\<open>Error\<close>.\<close>

theorem asError_idempotence_counterexample:
  "asError stringify_cyclic numbered_ctor_object = Inr (mk_error ErrorC (Num 42) ''m'') \<and>
   asError stringify_cyclic (mk_error ErrorC (Num 42) ''m'')
     = Inr (mk_error ErrorC (Str ''Error'') ''m'') \<and>
   mk_error ErrorC (Num 42) ''m'' \<noteq> mk_error ErrorC (Str ''Error'') ''m''"
  by (simp add: asError_def numbered_ctor_object_def object_literal_def
        object_proto_props_def object_proto_methods_def isError_def getObjectMessage_def new_Error_def)
     (simp add: mk_error_def error_chain_def)

text \<open>Claim C10, amended. \<open>isError\<close> looks at the shape of an object only, whatever its
  classes: a string name, a string message and, if a stack is present, a string stack.
  \<open>asError\<close> returns such a value itself. And \<open>asError\<close> is idempotent on every value on
  which it returns and whose constructor's name (when the read succeeds) is falsy or a
  string: applied to its own result it returns that result.\<close>

theorem isError_structural_asError_fixed:
  "(isError (Obj c fs) =
      (typeof (get_prop fs ''name'') = ''string'' \<and>
       typeof (get_prop fs ''message'') = ''string'' \<and>
       (has_prop fs ''stack'' \<longrightarrow> typeof (get_prop fs ''stack'') = ''string''))) \<and>
   (isError v \<longrightarrow> asError stringify v = Inr v) \<and>
   (asError stringify v = Inr e \<and>
    (case name_of (get v ''constructor'') of
       Inr n \<Rightarrow> \<not> truthy n \<or> typeof n = ''string''
     | Inl x \<Rightarrow> True)
    \<longrightarrow> asError stringify e = Inr e)"
proof (intro conjI impI)
  show "isError (Obj c fs) =
      (typeof (get_prop fs ''name'') = ''string'' \<and>
       typeof (get_prop fs ''message'') = ''string'' \<and>
       (has_prop fs ''stack'' \<longrightarrow> typeof (get_prop fs ''stack'') = ''string''))"
    by (auto simp add: isError_def)
next
  assume "isError v"
  then show "asError stringify v = Inr v"
    by (rule asError_isError)
next
  assume a: "asError stringify v = Inr e \<and>
    (case name_of (get v ''constructor'') of
       Inr n \<Rightarrow> \<not> truthy n \<or> typeof n = ''string''
     | Inl x \<Rightarrow> True)"
  have "isError e"
  proof (cases "isError v")
    case True
    with a show ?thesis by (simp add: asError_isError)
  next
    case ne: False
    show ?thesis
    proof (cases "isObject v")
      case False
      with a show ?thesis by (auto simp add: asError_non_object)
    next
      case True
      from a ne True obtain m err n where
        "new_Error m = Inr err" and n: "name_of (get v ''constructor'') = Inr n"
        and e: "e = assign err ''name'' (if truthy n then n else Str (typeof v))"
        by (auto simp add: asError_def split: sum.splits)
      then obtain s where "err = mk_error ErrorC (Str ''Error'') s"
        using new_Error_result by blast
      with e n a show ?thesis by auto
    qed
  qed
  then show "asError stringify e = Inr e"
    by (rule asError_isError)
qed

theorem isError_structural_asError_fixed_witness:
  "isError shaped_literal \<and>
   \<not> instanceof shaped_literal ErrorC \<and>
   asError stringify_cyclic shaped_literal = Inr shaped_literal \<and>
   asError stringify_cyclic (Num 42) = Inr (mk_error ErrorC (Str ''number'') ''42'') \<and>
   asError stringify_cyclic (mk_error ErrorC (Str ''number'') ''42'')
     = Inr (mk_error ErrorC (Str ''number'') ''42'')"
proof -
  let ?e = "mk_error ErrorC (Str ''number'') ''42''"
  have s: "isError shaped_literal"
    by (simp add: isError_def shaped_literal_def object_literal_def object_proto_props_def object_proto_methods_def)
  have i: "\<not> instanceof shaped_literal ErrorC"
    by (simp add: shaped_literal_def object_literal_def)
  have r: "asError stringify_cyclic (Num 42) = Inr ?e"
    by (simp add: asError_non_object isObject_def int_str_def nat_str.simps digit_char_def)
  have n: "(case name_of (get (Num 42) ''constructor'') of
              Inr n \<Rightarrow> \<not> truthy n \<or> typeof n = ''string''
            | Inl x \<Rightarrow> True)"
    by simp
  from isError_structural_asError_fixed [where c = "[ObjectC]" and fs = "[]"
      and v = shaped_literal and stringify = stringify_cyclic and e = ?e]
  have same: "asError stringify_cyclic shaped_literal = Inr shaped_literal"
    using s by blast
  from isError_structural_asError_fixed [where c = "[ObjectC]" and fs = "[]"
      and v = "Num 42" and stringify = stringify_cyclic and e = ?e]
  have again: "asError stringify_cyclic ?e = Inr ?e"
    using r n by blast
  show ?thesis
    using s i r same again by simp
qed

end
